theory Spec2Isabelle
  imports Complex_Main "HOL-Library.Word"
begin

section \<open>Data model (app/models.py)\<close>

text \<open>
  The enumerations and response classes of \<^verbatim>\<open>app/models.py\<close>. Python floats are
  modelled as reals: the scorers only compare a score with 0.5 and subtract it from 1,
  and both operations are monotone on doubles, so every bound below carries over.
\<close>

datatype RiskLevel = RENDAH | SEDANG | TINGGI

datatype DetectionType = LIDAH | KUKU

record SingleDetectionResult =
  detection_type :: DetectionType
  is_diabetic :: bool
  confidence :: real
  label :: string

record DiabetesAnalysisResponse =
  risk_level :: RiskLevel
  risk_percentage :: real
  lidah_result :: "SingleDetectionResult option"
  kuku_result :: "SingleDetectionResult option"
  risk_factors_identified :: "string list"
  recommendation :: string

type_synonym bytes = "8 word list"

text \<open>
  Exceptions that can travel through the pipeline: a failure of PIL to decode the bytes,
  a failure of the Keras model call, the \<^verbatim>\<open>ValueError\<close> of \<^verbatim>\<open>random.sample\<close>, the
  \<^verbatim>\<open>AttributeError\<close> of reading \<^verbatim>\<open>.is_diabetic\<close> from \<^verbatim>\<open>None\<close>, and the
  \<^verbatim>\<open>KeyError\<close> of a dictionary lookup.
\<close>

datatype error = DecodeError | InferenceError | ValueError | AttributeError | KeyError

section \<open>The predictor (app/predictor.py)\<close>

text \<open>
  \<^verbatim>\<open>DiabetesPredictor\<close> holds the two loaded Keras models. They and the PIL/numpy
  pipeline of \<^verbatim>\<open>preprocess_image\<close> are external code: the record carries them as
  functions that either fail or return a value, \<^typ>\<open>'t\<close> being the image tensor and
  the model's result being \<^verbatim>\<open>float(prediction[0][0])\<close>.
\<close>

record 't DiabetesPredictor =
  preprocess_image :: "bytes \<Rightarrow> error + 't"
  lidah_model :: "'t \<Rightarrow> error + real"
  kuku_model :: "'t \<Rightarrow> error + real"

definition predict_lidah :: "'t DiabetesPredictor \<Rightarrow> bytes \<Rightarrow> error + SingleDetectionResult" where
  "predict_lidah self image_bytes =
     (case preprocess_image self image_bytes of
        Inl e \<Rightarrow> Inl e
      | Inr img_array \<Rightarrow>
          (case lidah_model self img_array of
             Inl e \<Rightarrow> Inl e
           | Inr confidence_score \<Rightarrow>
               (let diabetic = confidence_score < 0.5;
                    lbl = (if diabetic then ''prediabet'' else ''non_diabet'');
                    conf = (if diabetic then 1 - confidence_score else confidence_score)
                in Inr \<lparr>detection_type = LIDAH, is_diabetic = diabetic,
                         confidence = conf, label = lbl\<rparr>)))"

definition predict_kuku :: "'t DiabetesPredictor \<Rightarrow> bytes \<Rightarrow> error + SingleDetectionResult" where
  "predict_kuku self image_bytes =
     (case preprocess_image self image_bytes of
        Inl e \<Rightarrow> Inl e
      | Inr img_array \<Rightarrow>
          (case kuku_model self img_array of
             Inl e \<Rightarrow> Inl e
           | Inr confidence_score \<Rightarrow>
               (let diabetic = confidence_score \<ge> 0.5;
                    lbl = (if diabetic then ''prediabet'' else ''non_diabet'');
                    conf = (if diabetic then confidence_score else 1 - confidence_score)
                in Inr \<lparr>detection_type = KUKU, is_diabetic = diabetic,
                         confidence = conf, label = lbl\<rparr>)))"

text \<open>
  \<^verbatim>\<open>predict_both\<close> guards each modality with \<^verbatim>\<open>if lidah_bytes:\<close>, Python's truth
  test: \<^verbatim>\<open>None\<close> and the empty byte string are both false.
\<close>

definition predict_both ::
  "'t DiabetesPredictor \<Rightarrow> bytes option \<Rightarrow> bytes option \<Rightarrow>
     error + (SingleDetectionResult option \<times> SingleDetectionResult option)" where
  "predict_both self lidah_bytes kuku_bytes =
     (case (case lidah_bytes of
              None \<Rightarrow> Inr None
            | Some lb \<Rightarrow> if lb = [] then Inr None else map_sum id Some (predict_lidah self lb)) of
        Inl e \<Rightarrow> Inl e
      | Inr lidah_res \<Rightarrow>
          (case (case kuku_bytes of
                   None \<Rightarrow> Inr None
                 | Some kb \<Rightarrow> if kb = [] then Inr None else map_sum id Some (predict_kuku self kb)) of
             Inl e \<Rightarrow> Inl e
           | Inr kuku_res \<Rightarrow> Inr (lidah_res, kuku_res)))"

section \<open>Risk factors and risk level (app/utils.py)\<close>

definition LIDAH_RISK_FACTORS :: "string \<rightharpoonup> string list" where
  "LIDAH_RISK_FACTORS =
     [''diabet'' \<mapsto>
        [''Tongue coating thickness abnormality'',
         ''Color changes in tongue surface'',
         ''Texture pattern irregularities'',
         ''Surface moisture level changes'',
         ''Papillae distribution abnormality'',
         ''Edge scalloping patterns detected'']]"

definition KUKU_RISK_FACTORS :: "string \<rightharpoonup> string list" where
  "KUKU_RISK_FACTORS =
     [''prediabet'' \<mapsto>
        [''Nail discoloration patterns'',
         ''Texture irregularities detected'',
         ''Surface changes observed'',
         ''Yellow nail syndrome indicators'',
         ''Nail bed color variations'',
         ''Onycholysis early signs'',
         ''Paronychia-like inflammation'',
         ''Brittle nail characteristics'',
         ''Growth pattern abnormalities'']]"

definition all_clear_factors :: "string list" where
  "all_clear_factors =
     [''No significant abnormalities detected'',
      ''Normal appearance observed'',
      ''Healthy indicators present'']"

definition general_factors :: "string list" where
  "general_factors =
     [''Possible early stage indicators'',
      ''Minor variations from baseline'',
      ''Requires further monitoring'']"

subsection \<open>The random source\<close>

text \<open>
  \<^verbatim>\<open>random.sample(population, k)\<close> of the standard library, for a population of at
  most 21 elements and \<open>k \<le> 5\<close> (the pools here have at most 15, and \<open>k = 3\<close>):
  \<^verbatim>\<open>
    n = len(population)
    if not 0 <= k <= n: raise ValueError
    pool = list(population)
    for i in range(k):
        j = randbelow(n - i)
        result[i] = pool[j]
        pool[j] = pool[n - i - 1]
  \<close>
  The random source is the argument \<open>rng\<close>: \<open>rng i\<close> is the raw number drawn in
  iteration \<open>i\<close>, and \<^verbatim>\<open>randbelow(m)\<close> is its residue modulo \<open>m\<close>, which ranges over
  the whole of \<open>{0..<m}\<close> as \<open>rng i\<close> ranges over the naturals.
\<close>

fun sample_loop :: "(nat \<Rightarrow> nat) \<Rightarrow> nat \<Rightarrow> 'a list \<Rightarrow> nat list \<Rightarrow> 'a list" where
  "sample_loop rng n pool [] = []"
| "sample_loop rng n pool (i # is) =
     (let j = rng i mod (n - i)
      in pool ! j # sample_loop rng n (pool[j := pool ! (n - i - 1)]) is)"

definition random_sample :: "(nat \<Rightarrow> nat) \<Rightarrow> 'a list \<Rightarrow> nat \<Rightarrow> error + 'a list" where
  "random_sample rng population k =
     (let n = length population
      in if k \<le> n then Inr (sample_loop rng n population [0..<k]) else Inl ValueError)"

text \<open>
  \<^verbatim>\<open>random.uniform(a, b)\<close> is \<^verbatim>\<open>a + (b - a) * random()\<close>; the argument \<open>u\<close> is the
  value of \<^verbatim>\<open>random()\<close>, which lies in \<open>[0, 1)\<close>.
\<close>

definition uniform :: "real \<Rightarrow> real \<Rightarrow> real \<Rightarrow> real" where
  "uniform u a b = a + (b - a) * u"

subsection \<open>get_risk_factors\<close>

text \<open>Lines 42 to 48: the combined candidate list.\<close>

definition collect_factors :: "bool \<Rightarrow> bool \<Rightarrow> error + string list" where
  "collect_factors lidah_diabetic kuku_diabetic =
     (case (if lidah_diabetic
            then (case LIDAH_RISK_FACTORS ''diabet'' of
                    None \<Rightarrow> Inl KeyError
                  | Some fs \<Rightarrow> Inr ([] @ fs))
            else Inr []) of
        Inl e \<Rightarrow> Inl e
      | Inr factors \<Rightarrow>
          if kuku_diabetic
          then (case KUKU_RISK_FACTORS ''prediabet'' of
                  None \<Rightarrow> Inl KeyError
                | Some fs \<Rightarrow> Inr (factors @ fs))
          else Inr factors)"

text \<open>Lines 50 to 70: all clear, sample, pad, truncate.\<close>

definition get_risk_factors :: "(nat \<Rightarrow> nat) \<Rightarrow> bool \<Rightarrow> bool \<Rightarrow> error + string list" where
  "get_risk_factors rng lidah_diabetic kuku_diabetic =
     (case collect_factors lidah_diabetic kuku_diabetic of
        Inl e \<Rightarrow> Inl e
      | Inr factors \<Rightarrow>
          if factors = [] then Inr all_clear_factors
          else if length factors > 3 then
            (case random_sample rng factors 3 of
               Inl e \<Rightarrow> Inl e
             | Inr sampled \<Rightarrow> Inr (take 3 sampled))
          else if length factors < 3 then
            Inr (take 3 (factors @ take (3 - length factors) general_factors))
          else Inr (take 3 factors))"

text \<open>The condition under which the \<^verbatim>\<open>elif len(factors) < 3\<close> branch runs.\<close>

definition padding_branch_taken :: "bool \<Rightarrow> bool \<Rightarrow> bool" where
  "padding_branch_taken lidah_diabetic kuku_diabetic =
     (case collect_factors lidah_diabetic kuku_diabetic of
        Inl e \<Rightarrow> False
      | Inr factors \<Rightarrow> factors \<noteq> [] \<and> \<not> length factors > 3 \<and> length factors < 3)"

subsection \<open>calculate_risk_level and get_recommendation\<close>

definition calculate_risk_level :: "real \<Rightarrow> bool \<Rightarrow> bool \<Rightarrow> RiskLevel \<times> real" where
  "calculate_risk_level u lidah_diabetic kuku_diabetic =
     (if lidah_diabetic \<and> kuku_diabetic then (TINGGI, uniform u 75 95)
      else if lidah_diabetic \<or> kuku_diabetic then (SEDANG, uniform u 45 70)
      else (RENDAH, uniform u 5 25))"

fun get_recommendation :: "RiskLevel \<Rightarrow> string" where
  "get_recommendation TINGGI =
     ''High risk detected. We strongly recommend immediate consultation with a healthcare '' @
     ''professional for comprehensive diabetes screening and blood glucose testing. '' @
     ''Early intervention is crucial for better health outcomes.''"
| "get_recommendation SEDANG =
     ''Moderate risk detected. Please schedule a medical check-up within the next few weeks. '' @
     ''Consider monitoring your blood sugar levels and maintaining a healthy lifestyle with '' @
     ''balanced diet and regular exercise.''"
| "get_recommendation RENDAH =
     ''Low risk detected. Continue maintaining a healthy lifestyle with regular exercise, '' @
     ''balanced nutrition, and adequate sleep. Regular health check-ups are still recommended '' @
     ''for prevention and early detection.''"

section \<open>The endpoints (app/main.py)\<close>

text \<open>
  An endpoint either raises \<^verbatim>\<open>HTTPException(status_code)\<close> or returns the response.
  The global \<^verbatim>\<open>predictor\<close> is \<^verbatim>\<open>None\<close> until startup has loaded the models. An
  uploaded file is modelled by the bytes its \<^verbatim>\<open>read()\<close> returns, and an omitted
  optional upload by \<open>None\<close>; an \<^verbatim>\<open>UploadFile\<close> object is always true in a truth test.
  The two random draws of a request are the arguments \<open>u\<close> and \<open>rng\<close>.
\<close>

datatype http_error = HTTPException nat

text \<open>The expression \<^verbatim>\<open>result.is_diabetic if result else False\<close>.\<close>

definition diabetic_or_False :: "SingleDetectionResult option \<Rightarrow> bool" where
  "diabetic_or_False result = (case result of None \<Rightarrow> False | Some r \<Rightarrow> is_diabetic r)"

definition predict_flexible ::
  "'t DiabetesPredictor option \<Rightarrow> real \<Rightarrow> (nat \<Rightarrow> nat) \<Rightarrow> bytes option \<Rightarrow> bytes option \<Rightarrow>
     http_error + DiabetesAnalysisResponse" where
  "predict_flexible predictor u rng lidah_image kuku_image =
     (case predictor of
        None \<Rightarrow> Inl (HTTPException 503)
      | Some p \<Rightarrow>
          if lidah_image = None \<and> kuku_image = None then Inl (HTTPException 400)
          else
            (case predict_both p lidah_image kuku_image of
               Inl e \<Rightarrow> Inl (HTTPException 500)
             | Inr (lidah_res, kuku_res) \<Rightarrow>
                 (let (level, percentage) =
                        calculate_risk_level u (diabetic_or_False lidah_res)
                          (diabetic_or_False kuku_res)
                  in case get_risk_factors rng (diabetic_or_False lidah_res)
                            (diabetic_or_False kuku_res) of
                       Inl e \<Rightarrow> Inl (HTTPException 500)
                     | Inr risk_factors \<Rightarrow>
                         Inr \<lparr>risk_level = level, risk_percentage = percentage,
                               lidah_result = lidah_res, kuku_result = kuku_res,
                               risk_factors_identified = risk_factors,
                               recommendation = get_recommendation level\<rparr>)))"

text \<open>
  \<^verbatim>\<open>/predict/lidah\<close> takes a required upload, calls \<^verbatim>\<open>predict_both\<close> with the nail
  bytes left at their default \<^verbatim>\<open>None\<close>, and reads \<^verbatim>\<open>lidah_result.is_diabetic\<close>
  without a test for \<^verbatim>\<open>None\<close>.
\<close>

definition predict_lidah_only ::
  "'t DiabetesPredictor option \<Rightarrow> real \<Rightarrow> (nat \<Rightarrow> nat) \<Rightarrow> bytes \<Rightarrow>
     http_error + DiabetesAnalysisResponse" where
  "predict_lidah_only predictor u rng lidah_image =
     (case predictor of
        None \<Rightarrow> Inl (HTTPException 503)
      | Some p \<Rightarrow>
          (case predict_both p (Some lidah_image) None of
             Inl e \<Rightarrow> Inl (HTTPException 500)
           | Inr (lidah_res, _) \<Rightarrow>
               (case lidah_res of
                  None \<Rightarrow> Inl (HTTPException 500)
                | Some r \<Rightarrow>
                    (let (level, percentage) = calculate_risk_level u (is_diabetic r) False
                     in case get_risk_factors rng (is_diabetic r) False of
                          Inl e \<Rightarrow> Inl (HTTPException 500)
                        | Inr risk_factors \<Rightarrow>
                            Inr \<lparr>risk_level = level, risk_percentage = percentage,
                                  lidah_result = Some r, kuku_result = None,
                                  risk_factors_identified = risk_factors,
                                  recommendation = get_recommendation level\<rparr>))))"

section \<open>Concrete predictors\<close>

text \<open>
  A predictor whose decoder accepts every byte string and whose models return the
  constant scores \<open>x\<close> (tongue) and \<open>y\<close> (nail), for running the pipeline on
  concrete requests.
\<close>

definition const_predictor :: "real \<Rightarrow> real \<Rightarrow> bytes DiabetesPredictor" where
  "const_predictor x y =
     \<lparr>preprocess_image = (\<lambda>bs. Inr bs), lidah_model = (\<lambda>t. Inr x), kuku_model = (\<lambda>t. Inr y)\<rparr>"

text \<open>
  A predictor whose decoder rejects the empty byte string and whose models read the
  score off the first byte of the image, as a fraction of 255.
\<close>

definition byte_predictor :: "bytes DiabetesPredictor" where
  "byte_predictor =
     \<lparr>preprocess_image = (\<lambda>bs. if bs = [] then Inl DecodeError else Inr bs),
      lidah_model = (\<lambda>t. Inr (real (unat (hd t)) / 255)),
      kuku_model = (\<lambda>t. Inr (real (unat (hd t)) / 255))\<rparr>"

section \<open>Properties of the candidate pools and of the sampling loop\<close>

lemma collect_factors_False_False: "collect_factors False False = Inr []"
  by (simp add: collect_factors_def)

lemma collect_factors_True_False:
  "collect_factors True False = Inr (the (LIDAH_RISK_FACTORS ''diabet''))"
  by (simp add: collect_factors_def LIDAH_RISK_FACTORS_def)

lemma collect_factors_False_True:
  "collect_factors False True = Inr (the (KUKU_RISK_FACTORS ''prediabet''))"
  by (simp add: collect_factors_def KUKU_RISK_FACTORS_def)

lemma collect_factors_True_True:
  "collect_factors True True =
     Inr (the (LIDAH_RISK_FACTORS ''diabet'') @ the (KUKU_RISK_FACTORS ''prediabet''))"
  by (simp add: collect_factors_def LIDAH_RISK_FACTORS_def KUKU_RISK_FACTORS_def)

lemma length_lidah_pool: "length (the (LIDAH_RISK_FACTORS ''diabet'')) = 6"
  by (simp add: LIDAH_RISK_FACTORS_def)

lemma length_kuku_pool: "length (the (KUKU_RISK_FACTORS ''prediabet'')) = 9"
  by (simp add: KUKU_RISK_FACTORS_def)

lemma collect_factors_length:
  "\<exists>fs. collect_factors l k = Inr fs \<and>
        length fs = (if l then 6 else 0) + (if k then 9 else 0)"
  by (cases l; cases k)
     (simp_all add: collect_factors_False_False collect_factors_True_False
        collect_factors_False_True collect_factors_True_True length_lidah_pool length_kuku_pool)

lemma length_sample_loop: "length (sample_loop rng n pool is) = length is"
  by (induction "is" arbitrary: pool) (simp_all add: Let_def)

lemma set_sample_loop:
  "length pool = n \<Longrightarrow> \<forall>i \<in> set is. i < n \<Longrightarrow> set (sample_loop rng n pool is) \<subseteq> set pool"
proof (induction "is" arbitrary: pool)
  case Nil
  then show ?case by simp
next
  case (Cons i "is")
  let ?j = "rng i mod (n - i)"
  let ?pool' = "pool[?j := pool ! (n - i - 1)]"
  from Cons.prems have i: "i < n" by simp
  then have "?j < n - i" by simp
  then have j: "?j < length pool" using Cons.prems(1) by simp
  have last: "n - i - 1 < length pool" using i Cons.prems(1) by simp
  have "set ?pool' \<subseteq> insert (pool ! (n - i - 1)) (set pool)"
    by (rule set_update_subset_insert)
  with last have sub: "set ?pool' \<subseteq> set pool" by auto
  have "set (sample_loop rng n ?pool' is) \<subseteq> set ?pool'"
    using Cons.IH [of ?pool'] Cons.prems by simp
  with sub j show ?case by (auto simp: Let_def)
qed

lemma random_sample_ok:
  "k \<le> length population \<Longrightarrow>
     \<exists>s. random_sample rng population k = Inr s \<and> length s = k \<and> set s \<subseteq> set population"
  using set_sample_loop [of population "length population" "[0..<k]" rng]
  by (simp add: random_sample_def Let_def length_sample_loop)

lemma get_risk_factors_from_pool:
  assumes "collect_factors l k = Inr fs" "3 < length fs"
  shows "\<exists>s. get_risk_factors rng l k = Inr s \<and> length s = 3 \<and> set s \<subseteq> set fs"
proof -
  from assms(2) have "3 \<le> length fs" by simp
  from random_sample_ok [OF this, of rng] obtain s where
    "random_sample rng fs 3 = Inr s" "length s = 3" "set s \<subseteq> set fs" by blast
  with assms show ?thesis
    by (auto simp: get_risk_factors_def)
qed

lemma get_risk_factors_False_False: "get_risk_factors rng False False = Inr all_clear_factors"
  by (simp add: get_risk_factors_def collect_factors_False_False)

lemma get_risk_factors_length: "\<exists>fs. get_risk_factors rng l k = Inr fs \<and> length fs = 3"
proof (cases "l \<or> k")
  case False
  then show ?thesis by (simp add: get_risk_factors_False_False all_clear_factors_def)
next
  case True
  from collect_factors_length [of l k] obtain fs where
    fs: "collect_factors l k = Inr fs" "length fs = (if l then 6 else 0) + (if k then 9 else 0)"
    by blast
  with True have "3 < length fs" by (auto split: if_splits)
  from get_risk_factors_from_pool [OF fs(1) this, of rng] show ?thesis by blast
qed

section \<open>The scorers\<close>

text \<open>
  Claim C1. The two scorers use opposite polarity at the same cutoff 0.5. Whenever
  decoding succeeds and both models return the raw score \<open>x\<close>, \<^verbatim>\<open>predict_lidah\<close>
  returns a positive verdict labelled "prediabet" exactly when \<open>x < 0.5\<close> (and a negative
  one labelled "non_diabet" exactly when \<open>x \<ge> 0.5\<close>, so at 0.5 itself), while
  \<^verbatim>\<open>predict_kuku\<close> returns a positive verdict labelled "prediabet" exactly when
  \<open>x \<ge> 0.5\<close> (so at 0.5 itself) and a negative one exactly when \<open>x < 0.5\<close>.
\<close>

theorem scorer_polarity:
  assumes "preprocess_image self lb = Inr t1" "lidah_model self t1 = Inr x"
      and "preprocess_image self kb = Inr t2" "kuku_model self t2 = Inr x"
  shows "\<exists>rl rk. predict_lidah self lb = Inr rl \<and> predict_kuku self kb = Inr rk \<and>
     (is_diabetic rl \<and> label rl = ''prediabet'') = (x < 0.5) \<and>
     (\<not> is_diabetic rl \<and> label rl = ''non_diabet'') = (x \<ge> 0.5) \<and>
     (is_diabetic rk \<and> label rk = ''prediabet'') = (x \<ge> 0.5) \<and>
     (\<not> is_diabetic rk \<and> label rk = ''non_diabet'') = (x < 0.5)"
  using assms by (auto simp: predict_lidah_def predict_kuku_def Let_def)

theorem scorer_polarity_witness:
  "\<exists>rl rk. predict_lidah (const_predictor 0.5 0.5) [1] = Inr rl \<and>
     predict_kuku (const_predictor 0.5 0.5) [2] = Inr rk \<and>
     \<not> is_diabetic rl \<and> label rl = ''non_diabet'' \<and>
     is_diabetic rk \<and> label rk = ''prediabet''"
  using scorer_polarity [of "const_predictor 0.5 0.5" "[1]" "[1]" "0.5" "[2]" "[2]"]
  by (auto simp: const_predictor_def)

text \<open>
  Claim C3. For a raw score \<open>x\<close> in \<open>[0, 1]\<close> the tongue scorer reports confidence
  \<open>1 - x\<close> when positive and \<open>x\<close> when negative, the nail scorer reports \<open>x\<close> when
  positive and \<open>1 - x\<close> when negative, both confidences lie in \<open>[0, 1]\<close>, and each
  label is one of "prediabet" and "non_diabet".
\<close>

theorem scorer_confidence:
  assumes "0 \<le> x" "x \<le> 1"
      and "preprocess_image self lb = Inr t1" "lidah_model self t1 = Inr x"
      and "preprocess_image self kb = Inr t2" "kuku_model self t2 = Inr x"
  shows "\<exists>rl rk. predict_lidah self lb = Inr rl \<and> predict_kuku self kb = Inr rk \<and>
     confidence rl = (if is_diabetic rl then 1 - x else x) \<and>
     confidence rk = (if is_diabetic rk then x else 1 - x) \<and>
     0 \<le> confidence rl \<and> confidence rl \<le> 1 \<and>
     0 \<le> confidence rk \<and> confidence rk \<le> 1 \<and>
     label rl \<in> {''prediabet'', ''non_diabet''} \<and>
     label rk \<in> {''prediabet'', ''non_diabet''}"
  using assms by (auto simp: predict_lidah_def predict_kuku_def Let_def)

theorem scorer_confidence_witness:
  "(0::real) \<le> 0.2 \<and> (0.2::real) \<le> 1 \<and>
   lidah_model (const_predictor 0.2 0.2) [1] = Inr 0.2 \<and>
   kuku_model (const_predictor 0.2 0.2) [2] = Inr 0.2 \<and>
   (\<exists>rl rk. predict_lidah (const_predictor 0.2 0.2) [1] = Inr rl \<and>
     predict_kuku (const_predictor 0.2 0.2) [2] = Inr rk \<and>
     confidence rl = (if is_diabetic rl then 1 - 0.2 else 0.2) \<and>
     confidence rk = (if is_diabetic rk then 0.2 else 1 - 0.2) \<and>
     0 \<le> confidence rl \<and> confidence rl \<le> 1 \<and>
     0 \<le> confidence rk \<and> confidence rk \<le> 1 \<and>
     label rl \<in> {''prediabet'', ''non_diabet''} \<and>
     label rk \<in> {''prediabet'', ''non_diabet''})"
  using scorer_confidence [of "0.2" "const_predictor 0.2 0.2" "[1]" "[1]" "[2]" "[2]"]
  by (simp add: const_predictor_def)

text \<open>
  Claim C10. For a raw score in \<open>[0, 1]\<close> the confidence that either scorer reports is
  at least 0.5: it lies in \<open>[0.5, 1]\<close>.
\<close>

theorem scorer_confidence_at_least_half:
  assumes "0 \<le> x" "x \<le> 1"
      and "preprocess_image self lb = Inr t1" "lidah_model self t1 = Inr x"
      and "preprocess_image self kb = Inr t2" "kuku_model self t2 = Inr x"
  shows "\<exists>rl rk. predict_lidah self lb = Inr rl \<and> predict_kuku self kb = Inr rk \<and>
     0.5 \<le> confidence rl \<and> confidence rl \<le> 1 \<and>
     0.5 \<le> confidence rk \<and> confidence rk \<le> 1"
  using assms by (auto simp: predict_lidah_def predict_kuku_def Let_def)

theorem scorer_confidence_at_least_half_witness:
  "(0::real) \<le> 0.5 \<and> (0.5::real) \<le> 1 \<and>
   lidah_model (const_predictor 0.5 0.5) [1] = Inr 0.5 \<and>
   kuku_model (const_predictor 0.5 0.5) [2] = Inr 0.5 \<and>
   (\<exists>rl rk. predict_lidah (const_predictor 0.5 0.5) [1] = Inr rl \<and>
     predict_kuku (const_predictor 0.5 0.5) [2] = Inr rk \<and>
     0.5 \<le> confidence rl \<and> confidence rl \<le> 1 \<and>
     0.5 \<le> confidence rk \<and> confidence rk \<le> 1)"
  using scorer_confidence_at_least_half [of "0.5" "const_predictor 0.5 0.5" "[1]" "[1]" "[2]" "[2]"]
  by (simp add: const_predictor_def)

section \<open>Risk aggregation\<close>

text \<open>
  Claim C2. For every draw \<open>u\<close> of the random source (a value of \<^verbatim>\<open>random()\<close>, in
  \<open>[0, 1)\<close>), \<^verbatim>\<open>calculate_risk_level\<close> returns the tier TINGGI (high) with a percentage
  in \<open>[75, 95]\<close> when both inputs are true, SEDANG (moderate) with a percentage in
  \<open>[45, 70]\<close> when exactly one is true, and RENDAH (low) with a percentage in
  \<open>[5, 25]\<close> when both are false.
\<close>

theorem calculate_risk_level_bands:
  assumes "0 \<le> u" "u < 1"
  shows "fst (calculate_risk_level u True True) = TINGGI \<and>
         75 \<le> snd (calculate_risk_level u True True) \<and>
         snd (calculate_risk_level u True True) \<le> 95 \<and>
         fst (calculate_risk_level u True False) = SEDANG \<and>
         45 \<le> snd (calculate_risk_level u True False) \<and>
         snd (calculate_risk_level u True False) \<le> 70 \<and>
         fst (calculate_risk_level u False True) = SEDANG \<and>
         45 \<le> snd (calculate_risk_level u False True) \<and>
         snd (calculate_risk_level u False True) \<le> 70 \<and>
         fst (calculate_risk_level u False False) = RENDAH \<and>
         5 \<le> snd (calculate_risk_level u False False) \<and>
         snd (calculate_risk_level u False False) \<le> 25"
  using assms by (simp add: calculate_risk_level_def uniform_def)

theorem calculate_risk_level_bands_witness:
  "calculate_risk_level 0 True True = (TINGGI, 75) \<and>
   calculate_risk_level 0 True False = (SEDANG, 45) \<and>
   calculate_risk_level 0 False True = (SEDANG, 45) \<and>
   calculate_risk_level 0 False False = (RENDAH, 5)"
  using calculate_risk_level_bands [of 0]
  by (simp add: calculate_risk_level_def uniform_def)

section \<open>Factor selection\<close>

text \<open>
  Claim C4. For each of the four pairs of booleans and every random source,
  \<^verbatim>\<open>get_risk_factors\<close> returns (without raising) a list of exactly three strings.
\<close>

theorem get_risk_factors_three:
  "\<exists>fs. get_risk_factors rng lidah_diabetic kuku_diabetic = Inr fs \<and> length fs = 3"
  by (rule get_risk_factors_length)

text \<open>
  Claim C7. With both modalities negative, \<^verbatim>\<open>get_risk_factors\<close> returns the fixed
  three-item "all clear" list verbatim, whatever the random source.
\<close>

theorem get_risk_factors_all_clear:
  "get_risk_factors rng False False =
     Inr [''No significant abnormalities detected'',
          ''Normal appearance observed'',
          ''Healthy indicators present'']"
  by (simp add: get_risk_factors_False_False all_clear_factors_def)

text \<open>
  Claim C9. The padding branch (fewer than three candidates) is never taken: the tongue
  pool has exactly 6 phrases and the nail pool exactly 9, the combined candidate list
  has 0, 6, 9 or 15 entries, and none of the three general phrases occurs in a returned
  factor list.
\<close>

theorem padding_unreachable:
  "\<not> padding_branch_taken lidah_diabetic kuku_diabetic \<and>
   length (the (LIDAH_RISK_FACTORS ''diabet'')) = 6 \<and>
   length (the (KUKU_RISK_FACTORS ''prediabet'')) = 9 \<and>
   (\<exists>factors. collect_factors lidah_diabetic kuku_diabetic = Inr factors \<and>
        length factors \<in> {0, 6, 9, 15}) \<and>
   (\<exists>fs. get_risk_factors rng lidah_diabetic kuku_diabetic = Inr fs \<and>
        set fs \<inter> set general_factors = {})"
proof -
  from collect_factors_length [of lidah_diabetic kuku_diabetic] obtain factors where
    f: "collect_factors lidah_diabetic kuku_diabetic = Inr factors"
       "length factors = (if lidah_diabetic then 6 else 0) + (if kuku_diabetic then 9 else 0)"
    by blast
  have a: "\<not> padding_branch_taken lidah_diabetic kuku_diabetic"
    using f by (auto simp: padding_branch_taken_def split: if_splits)
  have b: "length factors \<in> {0, 6, 9, 15}"
    using f(2) by (simp split: if_splits)
  have pools: "set factors \<inter> set general_factors = {}"
    using f(1)
    by (cases lidah_diabetic; cases kuku_diabetic)
       (auto simp: collect_factors_def LIDAH_RISK_FACTORS_def KUKU_RISK_FACTORS_def
          general_factors_def)
  have c: "\<exists>fs. get_risk_factors rng lidah_diabetic kuku_diabetic = Inr fs \<and>
        set fs \<inter> set general_factors = {}"
  proof (cases "lidah_diabetic \<or> kuku_diabetic")
    case False
    then show ?thesis
      by (simp add: get_risk_factors_False_False all_clear_factors_def general_factors_def)
  next
    case True
    with f(2) have "3 < length factors" by (auto split: if_splits)
    from get_risk_factors_from_pool [OF f(1) this, of rng] obtain s where
      "get_risk_factors rng lidah_diabetic kuku_diabetic = Inr s" "set s \<subseteq> set factors"
      by blast
    with pools show ?thesis by blast
  qed
  from a b c f(1) show ?thesis
    by (simp add: length_lidah_pool length_kuku_pool)
qed

section \<open>Empty uploads\<close>

text \<open>
  Claim C8. \<^verbatim>\<open>predict_both\<close> treats an empty byte string as an absent modality:
  the result is that of passing \<^verbatim>\<open>None\<close> for it, for every predictor (so neither
  the decoder nor the model is consulted and nothing is raised for it), its verdict is
  \<^verbatim>\<open>None\<close>, and a call with only empty byte strings returns \<^verbatim>\<open>(None, None)\<close>.
\<close>

theorem empty_bytes_absent:
  "predict_both self (Some []) kuku_bytes = predict_both self None kuku_bytes \<and>
   predict_both self lidah_bytes (Some []) = predict_both self lidah_bytes None \<and>
   predict_both self (Some []) (Some []) = Inr (None, None) \<and>
   predict_both self (Some []) None = Inr (None, None) \<and>
   predict_both self None (Some []) = Inr (None, None)"
  by (simp add: predict_both_def split: option.split sum.split)

section \<open>Absent and failed modalities in the flexible endpoint\<close>

text \<open>
  Claim C6. An absent modality counts as a negative one. The flag that \<^verbatim>\<open>/predict\<close>
  passes on for an absent verdict is \<open>False\<close>, so for every value \<open>b\<close> of the other
  modality's flag \<^verbatim>\<open>calculate_risk_level\<close> returns the same tier, and
  \<^verbatim>\<open>get_risk_factors\<close> the same factors, as for a negative verdict. End to end: when
  the tongue image \<open>lb\<close> scores negative, a request that omits the tongue image gets the
  same tier, percentage, factors and recommendation as the request that supplies \<open>lb\<close>,
  whatever nail image comes with it; and likewise for a negative nail image \<open>kb\<close> and
  any tongue image. So omitting an image never raises the tier.
\<close>

theorem absent_modality_is_negative:
  assumes "lb \<noteq> []" "predict_lidah p lb = Inr rl" "\<not> is_diabetic rl"
      and "kb \<noteq> []" "predict_kuku p kb = Inr rk" "\<not> is_diabetic rk"
  shows "diabetic_or_False None = False \<and>
     fst (calculate_risk_level u (diabetic_or_False None) b) = fst (calculate_risk_level u False b) \<and>
     fst (calculate_risk_level u b (diabetic_or_False None)) = fst (calculate_risk_level u b False) \<and>
     get_risk_factors rng (diabetic_or_False None) b = get_risk_factors rng False b \<and>
     get_risk_factors rng b (diabetic_or_False None) = get_risk_factors rng b False \<and>
     map_sum id (\<lambda>r. (risk_level r, risk_percentage r, risk_factors_identified r, recommendation r))
        (predict_flexible (Some p) u rng None (Some kb')) =
     map_sum id (\<lambda>r. (risk_level r, risk_percentage r, risk_factors_identified r, recommendation r))
        (predict_flexible (Some p) u rng (Some lb) (Some kb')) \<and>
     map_sum id (\<lambda>r. (risk_level r, risk_percentage r, risk_factors_identified r, recommendation r))
        (predict_flexible (Some p) u rng (Some lb') None) =
     map_sum id (\<lambda>r. (risk_level r, risk_percentage r, risk_factors_identified r, recommendation r))
        (predict_flexible (Some p) u rng (Some lb') (Some kb))"
  using assms
  by (auto simp: predict_flexible_def predict_both_def diabetic_or_False_def
        split: option.splits sum.splits prod.splits)

theorem absent_modality_is_negative_witness:
  "predict_lidah byte_predictor [255] =
      Inr \<lparr>detection_type = LIDAH, is_diabetic = False, confidence = 1, label = ''non_diabet''\<rparr> \<and>
   predict_kuku byte_predictor [0] =
      Inr \<lparr>detection_type = KUKU, is_diabetic = False, confidence = 1, label = ''non_diabet''\<rparr> \<and>
   map_sum id (\<lambda>r. (risk_level r, risk_percentage r, risk_factors_identified r, recommendation r))
      (predict_flexible (Some byte_predictor) (1/2) (\<lambda>i. 0) None (Some [255])) =
   map_sum id (\<lambda>r. (risk_level r, risk_percentage r, risk_factors_identified r, recommendation r))
      (predict_flexible (Some byte_predictor) (1/2) (\<lambda>i. 0) (Some [255]) (Some [255])) \<and>
   map_sum id (\<lambda>r. (risk_level r, risk_percentage r, risk_factors_identified r, recommendation r))
      (predict_flexible (Some byte_predictor) (1/2) (\<lambda>i. 0) (Some [0]) None) =
   map_sum id (\<lambda>r. (risk_level r, risk_percentage r, risk_factors_identified r, recommendation r))
      (predict_flexible (Some byte_predictor) (1/2) (\<lambda>i. 0) (Some [0]) (Some [0])) \<and>
   map_sum id risk_level
      (predict_flexible (Some byte_predictor) (1/2) (\<lambda>i. 0) None (Some [255])) = Inr SEDANG"
proof -
  have l: "predict_lidah byte_predictor [255] =
      Inr \<lparr>detection_type = LIDAH, is_diabetic = False, confidence = 1, label = ''non_diabet''\<rparr>"
    by (simp add: predict_lidah_def byte_predictor_def)
  have k: "predict_kuku byte_predictor [0] =
      Inr \<lparr>detection_type = KUKU, is_diabetic = False, confidence = 1, label = ''non_diabet''\<rparr>"
    by (simp add: predict_kuku_def byte_predictor_def)
  have k': "predict_kuku byte_predictor [255] =
      Inr \<lparr>detection_type = KUKU, is_diabetic = True, confidence = 1, label = ''prediabet''\<rparr>"
    by (simp add: predict_kuku_def byte_predictor_def)
  have t: "map_sum id risk_level
      (predict_flexible (Some byte_predictor) (1/2) (\<lambda>i. 0) None (Some [255])) = Inr SEDANG"
    using get_risk_factors_length [of "\<lambda>i. 0" False True]
    by (auto simp: predict_flexible_def predict_both_def k' diabetic_or_False_def
          calculate_risk_level_def)
  have "[255] \<noteq> ([] :: bytes)" "[0] \<noteq> ([] :: bytes)" by simp_all
  from absent_modality_is_negative [OF this(1) l _ this(2) k, of "1/2" True "\<lambda>i. 0" "[255]" "[0]"]
  show ?thesis using l k t by simp
qed

text \<open>
  A supplied, non-empty image whose decoding or scoring fails aborts \<^verbatim>\<open>/predict\<close>
  with status 500: no assessment is produced.
\<close>

lemma failed_modality_aborts:
  "lb \<noteq> [] \<Longrightarrow> predict_lidah p lb = Inl e \<Longrightarrow>
     predict_flexible (Some p) u rng (Some lb) kuku_image = Inl (HTTPException 500)"
  "kb \<noteq> [] \<Longrightarrow> predict_kuku p kb = Inl e \<Longrightarrow>
     predict_flexible (Some p) u rng lidah_image (Some kb) = Inl (HTTPException 500)"
  by (auto simp: predict_flexible_def predict_both_def split: option.splits sum.splits)

text \<open>
  Claim C5 says that a supplied image, empty bytes included, is never replaced by an
  absent verdict. For an upload of zero bytes \<^verbatim>\<open>/predict\<close> behaves otherwise, for every
  predictor, every draw and every random source: \<^verbatim>\<open>predict_both\<close> skips the image, the
  endpoint takes the missing verdict for a negative one and answers with a complete
  low-risk assessment carrying no verdict at all, the same whether one or both uploads
  are empty. The request that supplies no upload is refused with status 400, and the
  sibling endpoint \<^verbatim>\<open>/predict/lidah\<close> answers the same empty upload with status 500.
  A scorer that is handed the empty bytes does fail when its decoder rejects them.
\<close>

theorem empty_upload_assessed:
  "predict_flexible (Some self) u rng (Some []) None =
     Inr \<lparr>risk_level = RENDAH, risk_percentage = 5 + 20 * u,
           lidah_result = None, kuku_result = None,
           risk_factors_identified = all_clear_factors,
           recommendation = get_recommendation RENDAH\<rparr> \<and>
   predict_flexible (Some self) u rng (Some []) (Some []) =
     predict_flexible (Some self) u rng (Some []) None \<and>
   predict_flexible (Some self) u rng None None = Inl (HTTPException 400) \<and>
   predict_lidah_only (Some self) u rng [] = Inl (HTTPException 500) \<and>
   predict_lidah byte_predictor [] = Inl DecodeError \<and>
   predict_kuku byte_predictor [] = Inl DecodeError"
  by (simp add: predict_flexible_def predict_lidah_only_def predict_both_def
        diabetic_or_False_def calculate_risk_level_def uniform_def
        get_risk_factors_False_False predict_lidah_def predict_kuku_def byte_predictor_def)

end
